theory Spec2Isabelle
  imports Complex_Main "HOL-Library.Multiset"
begin

section \<open>Quiz attempts and scoring of the course-enrollment application\<close>

text \<open>
  The development embeds the quiz models of \<^verbatim>\<open>app/models/quiz.py\<close>, the access check of
  \<^verbatim>\<open>app/models/course.py\<close> and \<^verbatim>\<open>app/models/user.py\<close>, and the route
  \<^verbatim>\<open>take_quiz\<close> of \<^verbatim>\<open>app/main/routes.py\<close>.

  Conventions of the embedding:
  \<^item> a model class is a record of the columns its methods read, each field named after the
    class and the column (\<^verbatim>\<open>Quiz.max_attemtps\<close> is \<open>Quiz_max_attemtps\<close>, spelled as
    the class declares it);
  \<^item> the database is a record of tables, each a list of rows; a relationship such as
    \<^verbatim>\<open>quiz.questions\<close> is the filter of the table by the foreign key;
  \<^item> a method that mutates \<^verbatim>\<open>self\<close> returns the updated row; a route returns its
    response and the database after it;
  \<^item> an exception is a value \<open>Inl e\<close> of the result;
  \<^item> Python's \<^verbatim>\<open>/\<close> on numbers is exact division on \<open>rat\<close> (the floating-point
    rounding of the quotient is not modelled), and it raises on a zero divisor;
  \<^item> a text the methods compare or normalise is a list of Unicode code points
    (\<open>unicode\<close>); identifiers, status values and messages, which are only tested against
    constants, stay \<open>string\<close>;
  \<^item> what the methods call in Python's library and cannot be written out here is a field
    of the record \<open>python\<close>, a parameter of every function that needs it: case mapping
    beyond ASCII, \<^verbatim>\<open>str\<close> of a float, list or dict, and \<^verbatim>\<open>json.loads\<close>.
  The tables are taken as the class bodies name their columns; the calls that build the
  columns and relationships there (some misspelt, such as \<^verbatim>\<open>db.Intger\<close> and
  \<^verbatim>\<open>db.realtionship\<close>) are not part of any method and are not modelled. A method that
  reads an attribute its class does not declare raises \<^verbatim>\<open>AttributeError\<close>.
\<close>

subsection \<open>Python values and built-ins\<close>

datatype error =
  AttributeError | JSONDecodeError | ZeroDivisionError | ValueError | NotFound | BuildError

text \<open>A Python \<^verbatim>\<open>str\<close> is a sequence of Unicode code points.\<close>

type_synonym unicode = "nat list"

definition code_points :: "string \<Rightarrow> unicode" where
  "code_points s = map of_char s"

text \<open>The values \<^verbatim>\<open>json.loads\<close> yields: a submitted answer is any of them. A Python float is
  left abstract.\<close>

typedecl pyfloat

datatype jsonval =
  JString unicode
| JInt int
| JFloat pyfloat
| JBool bool
| JNull
| JArray "jsonval list"
| JObject "(unicode \<times> jsonval) list"

type_synonym answers_dict = "unicode \<rightharpoonup> jsonval"

text \<open>
  The library functions taken as parameters:
  \<^item> \<open>str_lower_unicode\<close> is \<^verbatim>\<open>str.lower\<close> on a text that has a code point outside ASCII
    (the Unicode case mapping, which depends on the Unicode tables and on context);
  \<^item> \<open>str_other\<close> is \<^verbatim>\<open>str\<close> of a float, a list or a dict;
  \<^item> \<open>json_loads\<close> is \<^verbatim>\<open>json.loads\<close>.
\<close>

record python =
  str_lower_unicode :: "unicode \<Rightarrow> unicode"
  str_other :: "jsonval \<Rightarrow> unicode"
  json_loads :: "string \<Rightarrow> error + answers_dict"

text \<open>\<^verbatim>\<open>str.isspace\<close> of a code point, the test \<^verbatim>\<open>str.strip()\<close> applies: the ASCII white
  space (tab to carriage return, the separators \<^verbatim>\<open>\x1c\<close> to \<^verbatim>\<open>\x1f\<close>, the space), NEL, the
  no-break space and the Unicode space, line and paragraph separators.\<close>

definition isspace :: "nat \<Rightarrow> bool" where
  "isspace c = (c \<in> set [0x09, 0x0A, 0x0B, 0x0C, 0x0D, 0x1C, 0x1D, 0x1E, 0x1F, 0x20, 0x85, 0xA0,
                           0x1680, 0x2000, 0x2001, 0x2002, 0x2003, 0x2004, 0x2005, 0x2006,
                           0x2007, 0x2008, 0x2009, 0x200A, 0x2028, 0x2029, 0x202F, 0x205F,
                           0x3000])"

definition strip :: "unicode \<Rightarrow> unicode" where
  "strip s = rev (dropWhile isspace (rev (dropWhile isspace s)))"

text \<open>\<^verbatim>\<open>str.lower\<close>: on a text of ASCII code points only, the letters \<^verbatim>\<open>A\<close> to \<^verbatim>\<open>Z\<close> become
  \<^verbatim>\<open>a\<close> to \<^verbatim>\<open>z\<close> and nothing else changes; any other text goes through the Unicode case
  mapping.\<close>

definition ascii_lower :: "nat \<Rightarrow> nat" where
  "ascii_lower c = (if 65 \<le> c \<and> c \<le> 90 then c + 32 else c)"

definition lower :: "python \<Rightarrow> unicode \<Rightarrow> unicode" where
  "lower py s =
     (if list_all (\<lambda>c. c < 128) s then map ascii_lower s else str_lower_unicode py s)"

fun str_nat :: "nat \<Rightarrow> string" where
  "str_nat n =
     (if n < 10 then [''0123456789'' ! n]
      else str_nat (n div 10) @ [''0123456789'' ! (n mod 10)])"

declare str_nat.simps [simp del]

definition str_int :: "int \<Rightarrow> string" where
  "str_int i = (if i < 0 then CHR ''-'' # str_nat (nat (- i)) else str_nat (nat i))"

text \<open>\<^verbatim>\<open>str(v)\<close> for a parsed JSON value.\<close>

fun py_str :: "python \<Rightarrow> jsonval \<Rightarrow> unicode" where
  "py_str py (JString s) = s"
| "py_str py (JInt i) = code_points (str_int i)"
| "py_str py (JBool b) = code_points (if b then ''True'' else ''False'')"
| "py_str py JNull = code_points ''None''"
| "py_str py v = str_other py v"

text \<open>Truthiness of an optional text column: \<^verbatim>\<open>None\<close> and \<^verbatim>\<open>''\<close> are false.\<close>

fun truthy :: "string option \<Rightarrow> bool" where
  "truthy None = False"
| "truthy (Some s) = (s \<noteq> [])"

definition py_truediv :: "rat \<Rightarrow> rat \<Rightarrow> error + rat" where
  "py_truediv a b = (if b = 0 then Inl ZeroDivisionError else Inr (a / b))"

text \<open>\<^verbatim>\<open>max(xs)\<close>: the first greatest element; \<^verbatim>\<open>ValueError\<close> on the empty list.\<close>

fun py_max :: "rat list \<Rightarrow> error + rat" where
  "py_max [] = Inl ValueError"
| "py_max (x # xs) = Inr (fold (\<lambda>y m. if m < y then y else m) xs x)"

subsection \<open>The tables\<close>

record User =
  User_id :: int
  User_role :: string

record Course =
  Course_id :: int

record Enrollment =
  Enrollment_user_id :: int
  Enrollment_course_id :: int
  Enrollment_is_active :: bool

record Quiz =
  Quiz_id :: int
  Quiz_course_id :: int
  Quiz_max_attemtps :: int
  Quiz_passing_score :: int
  Quiz_is_published :: bool
  Quiz_is_randomized :: bool

record Question =
  Question_id :: int
  Question_quiz_id :: int
  Question_question_type :: string
  Question_correct_answer :: unicode
  Question_points :: int
  Question_order_index :: int

record QuizAttempt =
  QuizAttempt_id :: int
  QuizAttempt_user_id :: int
  QuizAttempt_quiz_id :: int
  QuizAttempt_status :: string
  QuizAttempt_score :: "rat option"
  QuizAttempt_total_points :: "int option"
  QuizAttempt_earned_points :: "int option"
  QuizAttempt_answers :: "string option"
  QuizAttempt_started_at :: "nat option"
  QuizAttempt_completed_at :: "nat option"

record database =
  quizzes :: "Quiz list"
  questions :: "Question list"
  quiz_attempts :: "QuizAttempt list"
  courses :: "Course list"
  enrollments :: "Enrollment list"

text \<open>The relationships: \<^verbatim>\<open>quiz.questions\<close>, \<^verbatim>\<open>quiz.attempts\<close>, \<^verbatim>\<open>quiz.course\<close>,
  \<^verbatim>\<open>attempt.quiz\<close>, \<^verbatim>\<open>course.enrollments\<close>.\<close>

definition Quiz_questions :: "database \<Rightarrow> Quiz \<Rightarrow> Question list" where
  "Quiz_questions db self = filter (\<lambda>q. Question_quiz_id q = Quiz_id self) (questions db)"

definition Quiz_attempts :: "database \<Rightarrow> Quiz \<Rightarrow> QuizAttempt list" where
  "Quiz_attempts db self =
     filter (\<lambda>a. QuizAttempt_quiz_id a = Quiz_id self) (quiz_attempts db)"

definition Quiz_course :: "database \<Rightarrow> Quiz \<Rightarrow> Course option" where
  "Quiz_course db self = find (\<lambda>c. Course_id c = Quiz_course_id self) (courses db)"

definition QuizAttempt_quiz :: "database \<Rightarrow> QuizAttempt \<Rightarrow> Quiz option" where
  "QuizAttempt_quiz db self = find (\<lambda>q. Quiz_id q = QuizAttempt_quiz_id self) (quizzes db)"

definition Course_enrollments :: "database \<Rightarrow> Course \<Rightarrow> Enrollment list" where
  "Course_enrollments db self =
     filter (\<lambda>e. Enrollment_course_id e = Course_id self) (enrollments db)"

subsection \<open>Question\<close>

text \<open>\<^verbatim>\<open>Question.check_answer\<close>: the chain of four tests on the question type, as written
  (the fourth repeats the third).\<close>

definition check_answer :: "python \<Rightarrow> Question \<Rightarrow> jsonval \<Rightarrow> bool" where
  "check_answer py self user_answer =
     (if Question_question_type self = ''multiple_choice''
      then lower py (strip (py_str py user_answer)) =
           lower py (strip (Question_correct_answer self))
      else if Question_question_type self = ''true_false''
      then lower py (strip (py_str py user_answer)) =
           lower py (strip (Question_correct_answer self))
      else if Question_question_type self = ''short_answer''
      then lower py (strip (py_str py user_answer)) =
           lower py (strip (Question_correct_answer self))
      else if Question_question_type self = ''short_answer''
      then lower py (strip (py_str py user_answer)) =
           lower py (strip (Question_correct_answer self))
      else False)"

subsection \<open>QuizAttempt\<close>

text \<open>
  \<^verbatim>\<open>get_answers_dict\<close> tests \<^verbatim>\<open>self.answers\<close> and then parses \<^verbatim>\<open>self.answer\<close>. The class
  declares the column \<^verbatim>\<open>answers\<close> and no attribute \<^verbatim>\<open>answer\<close>, so the read raises
  \<^verbatim>\<open>AttributeError\<close> before \<^verbatim>\<open>json.loads\<close> is called.
\<close>

definition QuizAttempt_answer :: "QuizAttempt \<Rightarrow> error + string" where
  "QuizAttempt_answer self = Inl AttributeError"

text \<open>The \<^verbatim>\<open>except\<close> clause catches \<^verbatim>\<open>JSONDecodeError\<close> only.\<close>

definition get_answers_dict :: "python \<Rightarrow> QuizAttempt \<Rightarrow> error + answers_dict" where
  "get_answers_dict py self =
     (if truthy (QuizAttempt_answers self)
      then (case QuizAttempt_answer self of
              Inl e \<Rightarrow> (if e = JSONDecodeError then Inr Map.empty else Inl e)
            | Inr text \<Rightarrow>
                (case json_loads py text of
                   Inl e \<Rightarrow> (if e = JSONDecodeError then Inr Map.empty else Inl e)
                 | Inr d \<Rightarrow> Inr d))
      else Inr Map.empty)"

text \<open>The loop of \<^verbatim>\<open>calculate_score\<close> over the questions, on the pair
  \<open>(total_points, earned_points)\<close>. \<^verbatim>\<open>answers_dict.get\<close> gives \<^verbatim>\<open>None\<close> for a missing key
  and for a key stored with \<^verbatim>\<open>null\<close>.\<close>

fun calculate_score_loop ::
  "python \<Rightarrow> answers_dict \<Rightarrow> Question list \<Rightarrow> int \<times> int \<Rightarrow> int \<times> int" where
  "calculate_score_loop py answers [] (total_points, earned_points) =
     (total_points, earned_points)"
| "calculate_score_loop py answers (question # rest) (total_points, earned_points) =
     calculate_score_loop py answers rest
       (total_points + Question_points question,
        (case answers (code_points (str_int (Question_id question))) of
           None \<Rightarrow> earned_points
         | Some JNull \<Rightarrow> earned_points
         | Some user_answer \<Rightarrow>
             if check_answer py question user_answer
             then earned_points + Question_points question
             else earned_points))"

definition calculate_score :: "python \<Rightarrow> database \<Rightarrow> QuizAttempt \<Rightarrow> error + QuizAttempt" where
  "calculate_score py db self =
     (if QuizAttempt_status self \<noteq> ''completed'' then Inr self
      else
        (case get_answers_dict py self of
           Inl e \<Rightarrow> Inl e
         | Inr answers \<Rightarrow>
             (case QuizAttempt_quiz db self of
                None \<Rightarrow> Inl AttributeError
              | Some quiz \<Rightarrow>
                  (case calculate_score_loop py answers (Quiz_questions db quiz) (0, 0) of
                     (total_points, earned_points) \<Rightarrow>
                       (case (if total_points > 0
                              then (case py_truediv (of_int earned_points) (of_int total_points) of
                                      Inl e \<Rightarrow> Inl e
                                    | Inr r \<Rightarrow> Inr (r * 100))
                              else Inr 0) of
                          Inl e \<Rightarrow> Inl e
                        | Inr score \<Rightarrow>
                            Inr (self\<lparr>QuizAttempt_total_points := Some total_points,
                                      QuizAttempt_earned_points := Some earned_points,
                                      QuizAttempt_score := Some score\<rparr>))))))"

subsection \<open>Quiz\<close>

definition get_total_points :: "database \<Rightarrow> Quiz \<Rightarrow> int" where
  "get_total_points db self = sum_list (map Question_points (Quiz_questions db self))"

definition get_average_score :: "database \<Rightarrow> Quiz \<Rightarrow> error + rat" where
  "get_average_score db self =
     (let completed_attemtps =
            filter (\<lambda>a. QuizAttempt_status a = ''completed'') (Quiz_attempts db self);
          scores = List.map_filter QuizAttempt_score completed_attemtps
      in if scores \<noteq> [] then py_truediv (sum_list scores) (of_nat (length scores))
         else Inr 0)"

definition can_user_attempt :: "database \<Rightarrow> Quiz \<Rightarrow> User \<Rightarrow> bool" where
  "can_user_attempt db self user =
     (let user_attempts =
            length (filter (\<lambda>a. QuizAttempt_user_id a = User_id user) (Quiz_attempts db self))
      in int user_attempts < Quiz_max_attemtps self)"

definition get_user_best_score :: "database \<Rightarrow> Quiz \<Rightarrow> User \<Rightarrow> error + rat option" where
  "get_user_best_score db self user =
     (let user_attempts =
            filter (\<lambda>a. QuizAttempt_user_id a = User_id user \<and>
                         QuizAttempt_status a = ''completed'') (Quiz_attempts db self);
          scores = List.map_filter QuizAttempt_score user_attempts
      in if scores \<noteq> []
         then (case py_max scores of Inl e \<Rightarrow> Inl e | Inr m \<Rightarrow> Inr (Some m))
         else Inr None)"

subsection \<open>User and Course: the access check\<close>

definition is_teacher :: "User \<Rightarrow> bool" where
  "is_teacher self = (User_role self = ''teacher'')"

definition is_admin :: "User \<Rightarrow> bool" where
  "is_admin self = (User_role self = ''admin'')"

definition is_enrolled_by_user :: "database \<Rightarrow> Course \<Rightarrow> User \<Rightarrow> bool" where
  "is_enrolled_by_user db self user =
     (find (\<lambda>e. Enrollment_user_id e = User_id user \<and> Enrollment_is_active e)
        (Course_enrollments db self) \<noteq> None)"

definition can_be_accessed_by_user :: "database \<Rightarrow> Course \<Rightarrow> User \<Rightarrow> bool" where
  "can_be_accessed_by_user db self user =
     (if is_teacher user \<or> is_admin user then True else is_enrolled_by_user db self user)"

subsection \<open>The route \<^verbatim>\<open>take_quiz\<close>\<close>

text \<open>
  The route runs for a logged-in \<open>current_user\<close>. What it answers: a redirect (endpoint,
  its id argument, the flashed message) or the rendered quiz page (quiz, question list,
  attempt). An exception leaves the route as \<open>Inl\<close>; \<^verbatim>\<open>get_or_404\<close> raises \<open>NotFound\<close>.

  \<^verbatim>\<open>url_for\<close> builds the address of an endpoint and raises \<^verbatim>\<open>BuildError\<close> for a name that
  is none. The endpoints of the blueprint \<^verbatim>\<open>main\<close> are the routes of the file; the course page
  is \<^verbatim>\<open>course_details\<close>, so the name \<^verbatim>\<open>main.course_detail\<close> of line 386 is none.
\<close>

definition main_endpoints :: "string list" where
  "main_endpoints =
     [''main.index'', ''main.dashboard'', ''main.courses'', ''main.course_details'',
      ''main.enroll_course'', ''main.lesson_detail'', ''main.quiz_detail'', ''main.take_quiz'']"

definition url_for :: "string \<Rightarrow> error + string" where
  "url_for endpoint = (if endpoint \<in> set main_endpoints then Inr endpoint else Inl BuildError)"

datatype response =
  Redirect string int string
| Render Quiz "Question list" QuizAttempt

text \<open>Lines 380 to 391: the quiz lookup and the two checks. \<open>Inl\<close> is the route's answer
  when it ends here, \<open>Inr quiz\<close> lets it go on.\<close>

definition take_quiz_guard :: "database \<Rightarrow> User \<Rightarrow> int \<Rightarrow> (error + response) + Quiz" where
  "take_quiz_guard db current_user quiz_id =
     (case find (\<lambda>q. Quiz_id q = quiz_id) (quizzes db) of
        None \<Rightarrow> Inl (Inl NotFound)
      | Some quiz \<Rightarrow>
          (case Quiz_course db quiz of
             None \<Rightarrow> Inl (Inl AttributeError)
           | Some course \<Rightarrow>
               if \<not> can_be_accessed_by_user db course current_user
               then (case url_for ''main.course_detail'' of
                       Inl e \<Rightarrow> Inl (Inl e)
                     | Inr target \<Rightarrow>
                         Inl (Inr (Redirect target (Course_id course)
                           ''You must be enrolled in this course to access this quiz.'')))
               else if \<not> can_user_attempt db quiz current_user
               then (case url_for ''main.quiz_detail'' of
                       Inl e \<Rightarrow> Inl (Inl e)
                     | Inr target \<Rightarrow>
                         Inl (Inr (Redirect target quiz_id
                           ''You have reached the maximum number of attempts for this quiz.'')))
               else Inr quiz))"

text \<open>Lines 395 to 400: the new row as the commit stores it. The primary key is the next
  integer, \<^verbatim>\<open>status\<close> and \<^verbatim>\<open>started_at\<close> take their column defaults (\<open>now\<close> is the clock),
  every other column is \<^verbatim>\<open>None\<close>.\<close>

definition QuizAttempt_new :: "nat \<Rightarrow> database \<Rightarrow> int \<Rightarrow> int \<Rightarrow> QuizAttempt" where
  "QuizAttempt_new now db user_id quiz_id =
     \<lparr>QuizAttempt_id = fold max (map QuizAttempt_id (quiz_attempts db)) 0 + 1,
      QuizAttempt_user_id = user_id,
      QuizAttempt_quiz_id = quiz_id,
      QuizAttempt_status = ''in_progress'',
      QuizAttempt_score = None,
      QuizAttempt_total_points = None,
      QuizAttempt_earned_points = None,
      QuizAttempt_answers = None,
      QuizAttempt_started_at = Some now,
      QuizAttempt_completed_at = None\<rparr>"

definition take_quiz_create ::
  "nat \<Rightarrow> database \<Rightarrow> User \<Rightarrow> int \<Rightarrow> QuizAttempt \<times> database" where
  "take_quiz_create now db current_user quiz_id =
     (let attempt = QuizAttempt_new now db (User_id current_user) quiz_id
      in (attempt, db\<lparr>quiz_attempts := quiz_attempts db @ [attempt]\<rparr>))"

text \<open>
  Line 404 reads \<^verbatim>\<open>quiz.is_ramdomized\<close>. The class declares \<^verbatim>\<open>is_randomized\<close> and no
  attribute of the misspelled name, so the read raises \<^verbatim>\<open>AttributeError\<close>.
\<close>

definition Quiz_is_ramdomized :: "Quiz \<Rightarrow> error + bool" where
  "Quiz_is_ramdomized self = Inl AttributeError"

text \<open>Line 403: \<^verbatim>\<open>quiz.questions.order_by(Question.order_index).all()\<close>.\<close>

definition Quiz_questions_ordered :: "database \<Rightarrow> Quiz \<Rightarrow> Question list" where
  "Quiz_questions_ordered db self = sort_key Question_order_index (Quiz_questions db self)"

text \<open>Lines 403 to 411. \<open>sample\<close> stands for \<^verbatim>\<open>random.sample(questions, len(questions))\<close>:
  the permutation the generator draws.\<close>

definition take_quiz_render ::
  "(Question list \<Rightarrow> Question list) \<Rightarrow> database \<Rightarrow> Quiz \<Rightarrow> QuizAttempt \<Rightarrow> error + response" where
  "take_quiz_render sample db quiz attempt =
     (let questions = Quiz_questions_ordered db quiz
      in (case Quiz_is_ramdomized quiz of
            Inl e \<Rightarrow> Inl e
          | Inr randomize \<Rightarrow>
              Inr (Render quiz (if randomize then sample questions else questions) attempt)))"

definition take_quiz ::
  "(Question list \<Rightarrow> Question list) \<Rightarrow> nat \<Rightarrow> database \<Rightarrow> User \<Rightarrow> int
     \<Rightarrow> (error + response) \<times> database" where
  "take_quiz sample now db current_user quiz_id =
     (case take_quiz_guard db current_user quiz_id of
        Inl answer \<Rightarrow> (answer, db)
      | Inr quiz \<Rightarrow>
          (case take_quiz_create now db current_user quiz_id of
             (attempt, db') \<Rightarrow> (take_quiz_render sample db' quiz attempt, db')))"

subsection \<open>Sequences of requests\<close>

record request =
  request_user :: User
  request_quiz_id :: int
  request_now :: nat

text \<open>The number of attempt rows of a user on a quiz, whatever their status.\<close>

definition attempts_used :: "database \<Rightarrow> int \<Rightarrow> int \<Rightarrow> nat" where
  "attempts_used db user_id quiz_id =
     length (filter (\<lambda>a. QuizAttempt_user_id a = user_id \<and> QuizAttempt_quiz_id a = quiz_id)
       (quiz_attempts db))"

text \<open>Requests served one after another: each call of the route runs to its end before the
  next one starts.\<close>

fun take_quiz_calls ::
  "(Question list \<Rightarrow> Question list) \<Rightarrow> request list \<Rightarrow> database \<Rightarrow> database" where
  "take_quiz_calls sample [] db = db"
| "take_quiz_calls sample (r # rs) db =
     take_quiz_calls sample rs
       (snd (take_quiz sample (request_now r) db (request_user r) (request_quiz_id r)))"

text \<open>
  Requests served at the same time. The route holds no lock and opens no transaction around
  the count of line 389 and the commit of line 400, so the server may run another request
  between the two. A request is \<open>Pending\<close> before its checks, \<open>Checked\<close> between the checks and
  the commit, and \<open>Finished\<close> with its answer. A schedule names, step by step, the request
  that moves.
\<close>

datatype request_state = Pending | Checked Quiz | Finished "error + response"

fun request_step ::
  "(Question list \<Rightarrow> Question list) \<Rightarrow> request \<Rightarrow> request_state \<times> database
     \<Rightarrow> request_state \<times> database" where
  "request_step sample r (Pending, db) =
     (case take_quiz_guard db (request_user r) (request_quiz_id r) of
        Inl answer \<Rightarrow> (Finished answer, db)
      | Inr quiz \<Rightarrow> (Checked quiz, db))"
| "request_step sample r (Checked quiz, db) =
     (case take_quiz_create (request_now r) db (request_user r) (request_quiz_id r) of
        (attempt, db') \<Rightarrow> (Finished (take_quiz_render sample db' quiz attempt), db'))"
| "request_step sample r (Finished answer, db) = (Finished answer, db)"

fun run_schedule ::
  "(Question list \<Rightarrow> Question list) \<Rightarrow> request list \<Rightarrow> nat list
     \<Rightarrow> request_state list \<times> database \<Rightarrow> request_state list \<times> database" where
  "run_schedule sample rs [] (states, db) = (states, db)"
| "run_schedule sample rs (i # schedule) (states, db) =
     (if i < length rs \<and> i < length states
      then (case request_step sample (rs ! i) (states ! i, db) of
              (state', db') \<Rightarrow> run_schedule sample rs schedule (states[i := state'], db'))
      else run_schedule sample rs schedule (states, db))"

subsection \<open>Sample rows\<close>

text \<open>A student enrolled in course 1, whose quiz 1 is unpublished, allows one attempt and
  has a one-point and a three-point question.\<close>

definition ex_student :: User where
  "ex_student = \<lparr>User_id = 7, User_role = ''student''\<rparr>"

definition ex_course :: Course where
  "ex_course = \<lparr>Course_id = 1\<rparr>"

definition ex_enrollment :: Enrollment where
  "ex_enrollment = \<lparr>Enrollment_user_id = 7, Enrollment_course_id = 1, Enrollment_is_active = True\<rparr>"

definition ex_quiz :: Quiz where
  "ex_quiz = \<lparr>Quiz_id = 1, Quiz_course_id = 1, Quiz_max_attemtps = 1, Quiz_passing_score = 70,
              Quiz_is_published = False, Quiz_is_randomized = True\<rparr>"

definition ex_question_one :: Question where
  "ex_question_one = \<lparr>Question_id = 1, Question_quiz_id = 1,
     Question_question_type = ''multiple_choice'', Question_correct_answer = code_points ''a'',
     Question_points = 1, Question_order_index = 2\<rparr>"

definition ex_question_three :: Question where
  "ex_question_three = \<lparr>Question_id = 2, Question_quiz_id = 1,
     Question_question_type = ''short_answer'', Question_correct_answer = code_points ''b'',
     Question_points = 3, Question_order_index = 1\<rparr>"

definition ex_db :: database where
  "ex_db = \<lparr>quizzes = [ex_quiz], questions = [ex_question_one, ex_question_three],
            quiz_attempts = [], courses = [ex_course], enrollments = [ex_enrollment]\<rparr>"

definition ex_attempt :: QuizAttempt where
  \<open>ex_attempt = \<lparr>QuizAttempt_id = 1, QuizAttempt_user_id = 7, QuizAttempt_quiz_id = 1,
     QuizAttempt_status = ''completed'', QuizAttempt_score = None,
     QuizAttempt_total_points = None, QuizAttempt_earned_points = None,
     QuizAttempt_answers = Some ''{"2": "b"}'', QuizAttempt_started_at = Some 0,
     QuizAttempt_completed_at = Some 5\<rparr>\<close>

definition ex_attempt_blank :: QuizAttempt where
  "ex_attempt_blank = \<lparr>QuizAttempt_id = 1, QuizAttempt_user_id = 7, QuizAttempt_quiz_id = 1,
     QuizAttempt_status = ''completed'', QuizAttempt_score = None,
     QuizAttempt_total_points = None, QuizAttempt_earned_points = None,
     QuizAttempt_answers = None, QuizAttempt_started_at = Some 0,
     QuizAttempt_completed_at = Some 5\<rparr>"

definition ex_attempt_new :: QuizAttempt where
  "ex_attempt_new = \<lparr>QuizAttempt_id = 1, QuizAttempt_user_id = 7, QuizAttempt_quiz_id = 1,
     QuizAttempt_status = ''in_progress'', QuizAttempt_score = None,
     QuizAttempt_total_points = None, QuizAttempt_earned_points = None,
     QuizAttempt_answers = None, QuizAttempt_started_at = Some 0,
     QuizAttempt_completed_at = None\<rparr>"

text \<open>The sample database once the student has used the one attempt the quiz allows.\<close>

definition ex_db_used :: database where
  "ex_db_used = ex_db\<lparr>quiz_attempts := [ex_attempt_new]\<rparr>"

definition ex_request :: request where
  "ex_request = \<lparr>request_user = ex_student, request_quiz_id = 1, request_now = 0\<rparr>"

text \<open>An instance of the library parameters, for closed examples.\<close>

definition ex_python :: python where
  "ex_python = \<lparr>str_lower_unicode = (\<lambda>s. s), str_other = (\<lambda>v. []),
                 json_loads = (\<lambda>text. Inl JSONDecodeError)\<rparr>"

subsection \<open>Derived notions\<close>

text \<open>
  The spec's words for the normalisation of \<^verbatim>\<open>check_answer\<close> are "trimming surrounding
  whitespace". Written from these words, not from the code: \<open>t\<close> is \<open>s\<close> trimmed when \<open>s\<close> is
  \<open>t\<close> between two runs of white space and \<open>t\<close> itself neither begins nor ends with white
  space.
\<close>

definition spec_trimmed :: "unicode \<Rightarrow> unicode \<Rightarrow> bool" where
  "spec_trimmed t s =
     (\<exists>l r. s = l @ t @ r \<and> list_all isspace l \<and> list_all isspace r \<and>
            (t = [] \<or> (\<not> isspace (hd t) \<and> \<not> isspace (last t))))"

text \<open>The percentage \<^verbatim>\<open>calculate_score\<close> stores, as a function of the pair
  \<open>(total_points, earned_points)\<close> its loop ends with.\<close>

definition percentage :: "int \<times> int \<Rightarrow> rat" where
  "percentage p = (if fst p > 0 then of_int (snd p) / of_int (fst p) * 100 else 0)"

section \<open>Properties\<close>

subsection \<open>Answer checking\<close>

text \<open>\<^verbatim>\<open>strip\<close> is trimming, in the spec's sense, and the only trimming.\<close>

lemma strip_trimmed: "spec_trimmed (strip s) s"
proof -
  let ?d = "dropWhile isspace s"
  let ?l = "takeWhile isspace s"
  let ?r = "rev (takeWhile isspace (rev ?d))"
  have d: "?d = strip s @ ?r"
  proof -
    have "strip s @ ?r = rev (takeWhile isspace (rev ?d) @ dropWhile isspace (rev ?d))"
      by (simp only: strip_def rev_append)
    also have "\<dots> = ?d"
      by (simp only: takeWhile_dropWhile_id rev_rev_ident)
    finally show ?thesis by (rule sym)
  qed
  have s: "s = ?l @ strip s @ ?r"
    using d takeWhile_dropWhile_id [of isspace s] by simp
  have l: "list_all isspace ?l"
    by (simp add: list_all_iff) (meson set_takeWhileD)
  have r: "list_all isspace ?r"
    by (simp add: list_all_iff) (meson set_takeWhileD)
  have e: "strip s = [] \<or> (\<not> isspace (hd (strip s)) \<and> \<not> isspace (last (strip s)))"
  proof (cases "strip s = []")
    case True
    then show ?thesis by simp
  next
    case False
    then have ne: "dropWhile isspace (rev ?d) \<noteq> []" by (simp add: strip_def)
    have "last (strip s) = hd (dropWhile isspace (rev ?d))"
      using ne by (simp add: strip_def last_rev)
    then have la: "\<not> isspace (last (strip s))"
      using ne hd_dropWhile [of isspace "rev ?d"] by simp
    have "?d \<noteq> []" using d False by (metis append_is_Nil_conv)
    then have "\<not> isspace (hd ?d)" by (rule hd_dropWhile)
    moreover have "hd ?d = hd (strip s)" using d False by (metis hd_append2)
    ultimately show ?thesis using la by simp
  qed
  show ?thesis unfolding spec_trimmed_def using s l r e by blast
qed

lemma trimmed_strip:
  assumes "spec_trimmed t s"
  shows "t = strip s"
proof -
  from assms obtain l r where s: "s = l @ t @ r" and l: "list_all isspace l"
    and r: "list_all isspace r"
    and e: "t = [] \<or> (\<not> isspace (hd t) \<and> \<not> isspace (last t))"
    unfolding spec_trimmed_def by blast
  have L: "\<And>xs ys. list_all isspace xs \<Longrightarrow> dropWhile isspace (xs @ ys) = dropWhile isspace ys"
    by (simp add: list_all_iff dropWhile_append)
  show ?thesis
  proof (cases "t = []")
    case True
    have s': "s = l @ r" using s True by simp
    have "\<forall>x \<in> set s. isspace x"
      unfolding s' using l r by (auto simp: list_all_iff)
    then have ds: "dropWhile isspace s = []"
      by (simp only: dropWhile_eq_Nil_conv)
    have "strip s = []" unfolding strip_def ds by simp
    with True show ?thesis by simp
  next
    case False
    with e have h: "\<not> isspace (hd t)" and la: "\<not> isspace (last t)" by simp_all
    have 1: "dropWhile isspace s = t @ r"
    proof -
      have "dropWhile isspace s = dropWhile isspace (t @ r)" unfolding s using l by (rule L)
      also have "\<dots> = t @ r" using False h by (cases t) simp_all
      finally show ?thesis .
    qed
    have 2: "dropWhile isspace (rev (t @ r)) = rev t"
    proof -
      have "list_all isspace (rev r)" using r by (simp add: list_all_iff)
      then have "dropWhile isspace (rev r @ rev t) = dropWhile isspace (rev t)" by (rule L)
      also have "\<dots> = rev t"
        using False la by (cases "rev t") (simp_all add: last_rev [symmetric] hd_rev)
      finally show ?thesis by simp
    qed
    show ?thesis unfolding strip_def 1 2 by simp
  qed
qed

text \<open>
  Claim C6. \<^verbatim>\<open>check_answer\<close> is true exactly when the question type is one of
  \<^verbatim>\<open>multiple_choice\<close>, \<^verbatim>\<open>true_false\<close>, \<^verbatim>\<open>short_answer\<close> and the trimmed, lowercased text of
  the submitted answer equals the trimmed, lowercased correct answer; the same comparison
  serves the three types, and any other type gives false. The function is total, so it never
  raises. What the three steps of the normalisation are is part of the statement:
  \<^item> the text of a submitted string is the string itself, that of an integer its decimal
    digits, that of a truth value \<^verbatim>\<open>True\<close> or \<^verbatim>\<open>False\<close>, that of \<^verbatim>\<open>null\<close> is \<^verbatim>\<open>None\<close>;
  \<^item> the trimmed text is the one and only text that the spec's words describe: the text
    without the white space around it, white space being the code points 9 to 13, 28 to 32,
    NEL, the no-break space and the Unicode space and line separators;
  \<^item> lowercasing an ASCII text turns the letters \<^verbatim>\<open>A\<close> to \<^verbatim>\<open>Z\<close> into \<^verbatim>\<open>a\<close> to \<^verbatim>\<open>z\<close> and
    keeps every other code point; any other text is lowercased by the Unicode case mapping
    of the library.
\<close>

theorem C6_check_answer:
  "check_answer py q a =
     (Question_question_type q \<in> {''multiple_choice'', ''true_false'', ''short_answer''} \<and>
      lower py (strip (py_str py a)) = lower py (strip (Question_correct_answer q))) \<and>
   py_str py (JString s) = s \<and>
   py_str py (JInt i) = code_points (str_int i) \<and>
   py_str py (JBool b) = code_points (if b then ''True'' else ''False'') \<and>
   py_str py JNull = code_points ''None'' \<and>
   spec_trimmed t s = (t = strip s) \<and>
   isspace c =
     (9 \<le> c \<and> c \<le> 13 \<or> 28 \<le> c \<and> c \<le> 32 \<or> c = 0x85 \<or> c = 0xA0 \<or> c = 0x1680 \<or>
      0x2000 \<le> c \<and> c \<le> 0x200A \<or> c = 0x2028 \<or> c = 0x2029 \<or> c = 0x202F \<or>
      c = 0x205F \<or> c = 0x3000) \<and>
   lower py s =
     (if list_all (\<lambda>c. c < 128) s
      then map (\<lambda>c. if 65 \<le> c \<and> c \<le> 90 then c + 32 else c) s
      else str_lower_unicode py s)"
proof -
  have 4: "isspace c =
     (9 \<le> c \<and> c \<le> 13 \<or> 28 \<le> c \<and> c \<le> 32 \<or> c = 0x85 \<or> c = 0xA0 \<or> c = 0x1680 \<or>
      0x2000 \<le> c \<and> c \<le> 0x200A \<or> c = 0x2028 \<or> c = 0x2029 \<or> c = 0x202F \<or>
      c = 0x205F \<or> c = 0x3000)"
  proof -
    have a: "(9 \<le> c \<and> c \<le> 13) = (c = 9 \<or> c = 10 \<or> c = 11 \<or> c = 12 \<or> c = 13)"
      by arith
    have b: "(28 \<le> c \<and> c \<le> 32) = (c = 28 \<or> c = 29 \<or> c = 30 \<or> c = 31 \<or> c = 32)"
      by arith
    have d: "(0x2000 \<le> c \<and> c \<le> 0x200A) =
      (c = 0x2000 \<or> c = 0x2001 \<or> c = 0x2002 \<or> c = 0x2003 \<or> c = 0x2004 \<or>
       c = 0x2005 \<or> c = 0x2006 \<or> c = 0x2007 \<or> c = 0x2008 \<or> c = 0x2009 \<or>
       c = 0x200A)"
      by arith
    show ?thesis
      unfolding a b d isspace_def by (simp del: One_nat_def)
  qed
  have 1: "check_answer py q a =
     (Question_question_type q \<in> {''multiple_choice'', ''true_false'', ''short_answer''} \<and>
      lower py (strip (py_str py a)) = lower py (strip (Question_correct_answer q)))"
    by (auto simp: check_answer_def)
  have 2: "spec_trimmed t s = (t = strip s)"
    using strip_trimmed [of s] trimmed_strip [of t s] by blast
  have "map ascii_lower s = map (\<lambda>c. if 65 \<le> c \<and> c \<le> 90 then c + 32 else c) s"
    by (rule map_cong) (simp_all add: ascii_lower_def)
  then have 3: "lower py s =
     (if list_all (\<lambda>c. c < 128) s
      then map (\<lambda>c. if 65 \<le> c \<and> c \<le> 90 then c + 32 else c) s
      else str_lower_unicode py s)"
    by (simp add: lower_def)
  show ?thesis using 1 2 3 4 by simp
qed

text \<open>On the three-point sample question, whose correct answer is \<^verbatim>\<open>b\<close>: the answer
  \<^verbatim>\<open>"  B "\<close> is accepted, \<^verbatim>\<open>"a"\<close> is not, and \<^verbatim>\<open>"b"\<close> is not once the question has a type
  that is none of the three.\<close>

theorem C6_witness:
  "check_answer ex_python ex_question_three (JString (code_points ''  B '')) \<and>
   \<not> check_answer ex_python ex_question_three (JString (code_points ''a'')) \<and>
   \<not> check_answer ex_python (ex_question_three\<lparr>Question_question_type := ''essay''\<rparr>)
        (JString (code_points ''b'')) \<and>
   spec_trimmed (code_points ''B'') (code_points ''  B '') \<and>
   lower ex_python (code_points ''B'') = code_points ''b''"
proof -
  note d = ex_question_three_def code_points_def strip_def isspace_def
  note t1 = C6_check_answer [where py = ex_python and q = ex_question_three
      and a = "JString (code_points ''  B '')" and t = "code_points ''B''"
      and s = "code_points ''  B ''"]
  note t2 = C6_check_answer [where py = ex_python and q = ex_question_three
      and a = "JString (code_points ''a'')" and s = "code_points ''B''"]
  note t3 = C6_check_answer [where py = ex_python
      and q = "ex_question_three\<lparr>Question_question_type := ''essay''\<rparr>"
      and a = "JString (code_points ''b'')" and s = "code_points ''b''"]
  have l: "lower ex_python (code_points ''B'') = code_points ''b''"
    using t2 by (simp add: code_points_def)
  have l': "lower ex_python (code_points ''b'') = code_points ''b''"
    using t3 by (simp add: code_points_def)
  have l'': "lower ex_python (code_points ''a'') = code_points ''a''"
    using C6_check_answer [where py = ex_python and s = "code_points ''a''"]
    by (simp add: code_points_def)
  have s1: "strip (code_points ''  B '') = code_points ''B''" by (simp add: d)
  have s2: "strip (code_points ''a'') = code_points ''a''" by (simp add: d)
  have s3: "strip (code_points ''b'') = code_points ''b''" by (simp add: d)
  have a: "check_answer ex_python ex_question_three (JString (code_points ''  B ''))"
    using t1 l l' s1 s3 by (simp add: ex_question_three_def)
  have b: "\<not> check_answer ex_python ex_question_three (JString (code_points ''a''))"
    using t2 l' l'' s2 s3 by (simp add: ex_question_three_def) (simp add: code_points_def)
  have c: "\<not> check_answer ex_python (ex_question_three\<lparr>Question_question_type := ''essay''\<rparr>)
        (JString (code_points ''b''))"
    using t3 by (simp add: ex_question_three_def)
  have e: "spec_trimmed (code_points ''B'') (code_points ''  B '')"
    using t1 s1 by simp
  show ?thesis using a b c e l by simp
qed

subsection \<open>Reading the stored answers\<close>

lemma get_answers_dict_falsy:
  "\<not> truthy (QuizAttempt_answers a) \<Longrightarrow> get_answers_dict py a = Inr Map.empty"
  by (simp add: get_answers_dict_def)

lemma get_answers_dict_truthy:
  "truthy (QuizAttempt_answers a) \<Longrightarrow> get_answers_dict py a = Inl AttributeError"
  by (simp add: get_answers_dict_def QuizAttempt_answer_def)

text \<open>
  Claim C4 says that \<^verbatim>\<open>get_answers_dict\<close> gives the parsed mapping for valid JSON and the
  empty mapping, raising nothing, for absent, empty or unparsable text. For absent and empty
  text it does (\<open>get_answers_dict_falsy\<close>). For every non-empty text, valid JSON or not, the
  read of the undeclared attribute \<^verbatim>\<open>self.answer\<close> raises \<^verbatim>\<open>AttributeError\<close>, which the
  \<^verbatim>\<open>except\<close> clause does not catch (\<open>get_answers_dict_truthy\<close>). The theorem evaluates the
  method on the stored text \<^verbatim>\<open>{"2": "b"}\<close>, for any parser.
\<close>

theorem C4_get_answers_dict_raises:
  \<open>get_answers_dict py (a\<lparr>QuizAttempt_answers := Some ''{"2": "b"}''\<rparr>) = Inl AttributeError\<close>
  by (simp add: get_answers_dict_def QuizAttempt_answer_def)

subsection \<open>Scoring\<close>

text \<open>The loop by itself adds up what the scoring rule asks for: every question's points in
  the total, and in the earned points those of the questions whose id has a non-null entry
  that \<^verbatim>\<open>check_answer\<close> accepts.\<close>

lemma calculate_score_loop_sums:
  "calculate_score_loop py answers qs (t, e) =
     (t + sum_list (map Question_points qs),
      e + sum_list (map Question_points
            (filter (\<lambda>q. case answers (code_points (str_int (Question_id q))) of
                             None \<Rightarrow> False
                           | Some JNull \<Rightarrow> False
                           | Some v \<Rightarrow> check_answer py q v) qs)))"
  by (induction qs arbitrary: t e) (auto split: option.splits jsonval.splits)

lemma calculate_score_loop_example:
  "calculate_score_loop py [code_points ''2'' \<mapsto> JString (code_points ''b'')]
     (Quiz_questions ex_db ex_quiz) (0, 0) = (4, 3)"
  by (simp add: Quiz_questions_def ex_db_def ex_quiz_def ex_question_one_def ex_question_three_def
      code_points_def str_int_def str_nat.simps check_answer_def)

text \<open>With no negative point value, the percentage the loop's result gives lies between 0
  and 100.\<close>

lemma sum_list_filter_le:
  "\<forall>q \<in> set qs. 0 \<le> Question_points q \<Longrightarrow>
   0 \<le> sum_list (map Question_points (filter P qs)) \<and>
   sum_list (map Question_points (filter P qs)) \<le> sum_list (map Question_points qs)"
  by (induction qs) auto

lemma percentage_bounds:
  assumes "0 \<le> e" and "e \<le> t"
  shows "0 \<le> percentage (t, e) \<and> percentage (t, e) \<le> 100"
proof (cases "0 < t")
  case False
  then show ?thesis by (simp add: percentage_def)
next
  case True
  define x :: rat where "x = of_int e / of_int t"
  have "0 \<le> x" using assms True by (simp add: x_def)
  moreover have "x \<le> 1" using assms True by (simp add: x_def divide_le_eq)
  ultimately have "0 \<le> x * 100" and "x * 100 \<le> 100" by simp_all
  moreover have "percentage (t, e) = x * 100" using True by (simp add: percentage_def x_def)
  ultimately show ?thesis by simp
qed

lemma calculate_score_loop_percentage:
  assumes "\<forall>q \<in> set qs. 0 \<le> Question_points q"
  shows "0 \<le> percentage (calculate_score_loop py answers qs (0, 0)) \<and>
         percentage (calculate_score_loop py answers qs (0, 0)) \<le> 100"
proof -
  let ?P = "\<lambda>q. case answers (code_points (str_int (Question_id q))) of
                   None \<Rightarrow> False | Some JNull \<Rightarrow> False | Some v \<Rightarrow> check_answer py q v"
  have p: "calculate_score_loop py answers qs (0, 0) =
      (sum_list (map Question_points qs), sum_list (map Question_points (filter ?P qs)))"
    by (simp add: calculate_score_loop_sums)
  from sum_list_filter_le [OF assms, of ?P] show ?thesis
    unfolding p by (intro percentage_bounds) simp_all
qed

text \<open>
  Claim C1 says that \<^verbatim>\<open>calculate_score\<close> stores the total, the earned points and the
  percentage for every question set and answer map, and that answering only the three-point
  question of the two-question quiz gives 3 of 4 points, 75 percent. The loop would
  (\<open>calculate_score_loop_example\<close>), but the method first calls \<^verbatim>\<open>get_answers_dict\<close>, which
  raises on every non-empty answer text. The theorem evaluates the method on the completed
  attempt of the example, whose stored answers are \<^verbatim>\<open>{"2": "b"}\<close>: it raises
  \<^verbatim>\<open>AttributeError\<close> and stores nothing.
\<close>

theorem C1_calculate_score_raises:
  "calculate_score py ex_db ex_attempt = Inl AttributeError"
  by (simp add: calculate_score_def get_answers_dict_def QuizAttempt_answer_def ex_attempt_def)

text \<open>
  Claim C7 says that a quiz without questions has zero total points and that scoring any
  attempt on it stores 0 earned, 0 total and 0 percent without dividing by zero. The total is
  0, no call ever raises \<^verbatim>\<open>ZeroDivisionError\<close> (\<open>calculate_score_no_ZeroDivisionError\<close>), and
  an attempt without answer text gets the three zeros (\<open>calculate_score_zero_questions\<close>).
  An attempt with answer text gets nothing stored: the theorem evaluates the method on the
  example attempt with the quiz's questions removed.
\<close>

theorem C7_zero_questions:
  "get_total_points (ex_db\<lparr>questions := []\<rparr>) ex_quiz = 0 \<and>
   calculate_score py (ex_db\<lparr>questions := []\<rparr>) ex_attempt = Inl AttributeError"
  by (simp add: get_total_points_def Quiz_questions_def calculate_score_def get_answers_dict_def
      QuizAttempt_answer_def ex_attempt_def)

lemma calculate_score_no_ZeroDivisionError:
  "calculate_score py db a \<noteq> Inl ZeroDivisionError"
  by (auto simp: calculate_score_def get_answers_dict_def QuizAttempt_answer_def py_truediv_def
      split: option.splits prod.splits sum.splits)

lemma calculate_score_zero_questions:
  assumes "QuizAttempt_status a = ''completed''" and "\<not> truthy (QuizAttempt_answers a)"
    and "QuizAttempt_quiz db a = Some quiz" and "Quiz_questions db quiz = []"
  shows "calculate_score py db a =
     Inr (a\<lparr>QuizAttempt_total_points := Some 0, QuizAttempt_earned_points := Some 0,
            QuizAttempt_score := Some 0\<rparr>)"
  using assms by (simp add: calculate_score_def get_answers_dict_def)

subsection \<open>Best score and average score\<close>

lemma set_map_filter_Some:
  "set (List.map_filter f xs) = {y. \<exists>x \<in> set xs. f x = Some y}"
  by (induction xs) (auto split: option.splits)

lemma py_max_Max: "xs \<noteq> [] \<Longrightarrow> py_max xs = Inr (Max (set xs))"
proof (cases xs)
  case Nil
  then show "xs \<noteq> [] \<Longrightarrow> ?thesis" by simp
next
  case (Cons x ys)
  have "(\<lambda>y m. if m < y then y else m) = (max :: rat \<Rightarrow> rat \<Rightarrow> rat)"
    by (auto simp: fun_eq_iff max_def)
  then show ?thesis
    using Cons Max.set_eq_fold [of x ys] by (simp del: Max_insert set_simps)
qed

lemma filter_user_completed:
  "filter (\<lambda>a. QuizAttempt_user_id a = u \<and> QuizAttempt_status a = ''completed'')
     (filter (\<lambda>a. QuizAttempt_quiz_id a = q) xs) =
   filter (\<lambda>a. QuizAttempt_quiz_id a = q \<and> QuizAttempt_user_id a = u \<and>
                QuizAttempt_status a = ''completed'') xs"
  by (induction xs) auto

lemma get_user_best_score_scores:
  "get_user_best_score db quiz user =
     (let scores = List.map_filter QuizAttempt_score
            (filter (\<lambda>a. QuizAttempt_quiz_id a = Quiz_id quiz \<and>
                          QuizAttempt_user_id a = User_id user \<and>
                          QuizAttempt_status a = ''completed'') (quiz_attempts db))
      in if scores = [] then Inr None else Inr (Some (Max (set scores))))"
  unfolding get_user_best_score_def Quiz_attempts_def filter_user_completed Let_def
  by (simp add: py_max_Max)

text \<open>
  Claim C9. \<^verbatim>\<open>get_user_best_score\<close> never raises. It returns the greatest score among the
  attempts on the quiz that belong to the user, are completed and have a score, and
  \<^verbatim>\<open>None\<close> when there is no such attempt. Removing from the table every attempt of another
  user and every attempt that is not completed leaves the result the same.
\<close>

theorem C9_get_user_best_score:
  "get_user_best_score db quiz user =
     Inr (let S = {s. \<exists>a \<in> set (quiz_attempts db).
                      QuizAttempt_quiz_id a = Quiz_id quiz \<and>
                      QuizAttempt_user_id a = User_id user \<and>
                      QuizAttempt_status a = ''completed'' \<and>
                      QuizAttempt_score a = Some s}
          in if S = {} then None else Some (Max S)) \<and>
   get_user_best_score
     (db\<lparr>quiz_attempts :=
            filter (\<lambda>a. QuizAttempt_user_id a = User_id user \<and>
                         QuizAttempt_status a = ''completed'') (quiz_attempts db)\<rparr>) quiz user =
     get_user_best_score db quiz user"
proof
  let ?sel = "\<lambda>a. QuizAttempt_quiz_id a = Quiz_id quiz \<and> QuizAttempt_user_id a = User_id user \<and>
                   QuizAttempt_status a = ''completed''"
  let ?scores = "List.map_filter QuizAttempt_score (filter ?sel (quiz_attempts db))"
  let ?S = "{s. \<exists>a \<in> set (quiz_attempts db).
                QuizAttempt_quiz_id a = Quiz_id quiz \<and> QuizAttempt_user_id a = User_id user \<and>
                QuizAttempt_status a = ''completed'' \<and> QuizAttempt_score a = Some s}"
  have S: "set ?scores = ?S"
    unfolding set_map_filter_Some by auto
  have empty: "(?scores = []) = (?S = {})"
    unfolding S [symmetric] by simp
  have "get_user_best_score db quiz user = Inr (if ?S = {} then None else Some (Max ?S))"
    unfolding get_user_best_score_scores Let_def empty S by simp
  then show "get_user_best_score db quiz user =
      Inr (let S = {s. \<exists>a \<in> set (quiz_attempts db).
                      QuizAttempt_quiz_id a = Quiz_id quiz \<and>
                      QuizAttempt_user_id a = User_id user \<and>
                      QuizAttempt_status a = ''completed'' \<and>
                      QuizAttempt_score a = Some s}
          in if S = {} then None else Some (Max S))"
    unfolding Let_def .
  have "filter ?sel (filter (\<lambda>a. QuizAttempt_user_id a = User_id user \<and>
           QuizAttempt_status a = ''completed'') (quiz_attempts db)) =
        filter ?sel (quiz_attempts db)"
    by (simp, rule filter_cong) auto
  then show "get_user_best_score
     (db\<lparr>quiz_attempts :=
            filter (\<lambda>a. QuizAttempt_user_id a = User_id user \<and>
                         QuizAttempt_status a = ''completed'') (quiz_attempts db)\<rparr>) quiz user =
     get_user_best_score db quiz user"
    unfolding get_user_best_score_scores by simp
qed

text \<open>
  Claim C10. \<^verbatim>\<open>get_average_score\<close> never raises: it returns the sum of the scores of the
  quiz's completed attempts that have a score, divided by their number, when there is at
  least one, and 0 when there is none; the division is never by zero.
\<close>

theorem C10_get_average_score:
  "get_average_score db quiz =
     Inr (let scores = List.map_filter QuizAttempt_score
                         (filter (\<lambda>a. QuizAttempt_quiz_id a = Quiz_id quiz \<and>
                                       QuizAttempt_status a = ''completed'') (quiz_attempts db))
          in if scores = [] then 0 else sum_list scores / of_nat (length scores))"
proof -
  have "filter (\<lambda>a. QuizAttempt_status a = ''completed'') (Quiz_attempts db quiz) =
        filter (\<lambda>a. QuizAttempt_quiz_id a = Quiz_id quiz \<and> QuizAttempt_status a = ''completed'')
          (quiz_attempts db)"
    by (simp add: Quiz_attempts_def)
  then show ?thesis
    by (simp add: get_average_score_def Let_def py_truediv_def)
qed

subsection \<open>Scoring a completed attempt again\<close>

lemma calculate_score_completed:
  assumes "QuizAttempt_status a = ''completed''"
  shows "calculate_score py db a =
     (case get_answers_dict py a of
        Inl e \<Rightarrow> Inl e
      | Inr answers \<Rightarrow>
          (case QuizAttempt_quiz db a of
             None \<Rightarrow> Inl AttributeError
           | Some quiz \<Rightarrow>
               Inr (a\<lparr>QuizAttempt_total_points :=
                        Some (fst (calculate_score_loop py answers (Quiz_questions db quiz) (0, 0))),
                      QuizAttempt_earned_points :=
                        Some (snd (calculate_score_loop py answers (Quiz_questions db quiz) (0, 0))),
                      QuizAttempt_score :=
                        Some (percentage
                          (calculate_score_loop py answers (Quiz_questions db quiz) (0, 0)))\<rparr>)))"
proof (cases "get_answers_dict py a")
  case (Inl e)
  then show ?thesis using assms by (simp add: calculate_score_def)
next
  case (Inr answers)
  show ?thesis
  proof (cases "QuizAttempt_quiz db a")
    case None
    then show ?thesis using assms Inr by (simp add: calculate_score_def)
  next
    case (Some quiz)
    obtain t e where te: "calculate_score_loop py answers (Quiz_questions db quiz) (0, 0) = (t, e)"
      by (cases "calculate_score_loop py answers (Quiz_questions db quiz) (0, 0)") blast
    show ?thesis
      using assms Inr Some te
      by (simp add: calculate_score_def percentage_def py_truediv_def)
  qed
qed

lemma get_answers_dict_answers:
  "QuizAttempt_answers a' = QuizAttempt_answers a \<Longrightarrow>
   get_answers_dict py a' = get_answers_dict py a"
  by (simp add: get_answers_dict_def QuizAttempt_answer_def)

lemma calculate_score_Inr_cases:
  assumes r: "calculate_score py db a = Inr a'"
  shows "a' = a \<or>
    (\<exists>t e s. a' = a\<lparr>QuizAttempt_total_points := Some t, QuizAttempt_earned_points := Some e,
                      QuizAttempt_score := Some s\<rparr>)"
proof (cases "QuizAttempt_status a = ''completed''")
  case False
  then have "calculate_score py db a = Inr a" by (simp add: calculate_score_def)
  with r show ?thesis by simp
next
  case True
  note c = calculate_score_completed [OF True, of py db]
  show ?thesis
  proof (cases "get_answers_dict py a")
    case (Inl e)
    with c r show ?thesis by simp
  next
    case (Inr answers)
    show ?thesis
    proof (cases "QuizAttempt_quiz db a")
      case None
      with c r Inr show ?thesis by simp
    next
      case (Some quiz)
      with c r Inr have "a' = a\<lparr>QuizAttempt_total_points :=
                        Some (fst (calculate_score_loop py answers (Quiz_questions db quiz) (0, 0))),
                      QuizAttempt_earned_points :=
                        Some (snd (calculate_score_loop py answers (Quiz_questions db quiz) (0, 0))),
                      QuizAttempt_score :=
                        Some (percentage
                          (calculate_score_loop py answers (Quiz_questions db quiz) (0, 0)))\<rparr>"
        by simp
      then show ?thesis by blast
    qed
  qed
qed

lemma calculate_score_frame:
  assumes r: "calculate_score py db a = Inr a'"
  shows "QuizAttempt_completed_at a' = QuizAttempt_completed_at a \<and>
         QuizAttempt_status a' = QuizAttempt_status a \<and>
         QuizAttempt_answers a' = QuizAttempt_answers a \<and>
         QuizAttempt_quiz_id a' = QuizAttempt_quiz_id a"
  using calculate_score_Inr_cases [OF r]
proof (elim disjE exE)
  assume "a' = a"
  then show ?thesis by simp
next
  fix t e s
  assume "a' = a\<lparr>QuizAttempt_total_points := Some t, QuizAttempt_earned_points := Some e,
                  QuizAttempt_score := Some s\<rparr>"
  then show ?thesis by simp
qed

lemma calculate_score_idempotent:
  assumes r: "calculate_score py db a = Inr a'"
  shows "calculate_score py db a' = Inr a'"
proof (cases "QuizAttempt_status a = ''completed''")
  case False
  then have "calculate_score py db a = Inr a" by (simp add: calculate_score_def)
  with r show ?thesis by simp
next
  case True
  note f = calculate_score_frame [OF r]
  have st: "QuizAttempt_status a' = ''completed''" using f True by simp
  have g: "get_answers_dict py a' = get_answers_dict py a"
    using f by (intro get_answers_dict_answers) simp
  have q: "QuizAttempt_quiz db a' = QuizAttempt_quiz db a"
    using f by (simp add: QuizAttempt_quiz_def)
  note c = calculate_score_completed [OF True, of py db]
  note c' = calculate_score_completed [OF st, of py db]
  show ?thesis
  proof (cases "get_answers_dict py a")
    case (Inl e)
    with c r show ?thesis by simp
  next
    case (Inr answers)
    show ?thesis
    proof (cases "QuizAttempt_quiz db a")
      case None
      with c r Inr show ?thesis by simp
    next
      case (Some quiz)
      let ?p = "calculate_score_loop py answers (Quiz_questions db quiz) (0, 0)"
      from c r Inr Some
      have a': "a' = a\<lparr>QuizAttempt_total_points := Some (fst ?p),
                        QuizAttempt_earned_points := Some (snd ?p),
                        QuizAttempt_score := Some (percentage ?p)\<rparr>"
        by simp
      have c2: "calculate_score py db a' =
              Inr (a'\<lparr>QuizAttempt_total_points := Some (fst ?p),
                        QuizAttempt_earned_points := Some (snd ?p),
                        QuizAttempt_score := Some (percentage ?p)\<rparr>)"
        unfolding c' g q Inr Some by simp
      have "a\<lparr>QuizAttempt_total_points := Some (fst ?p),
                        QuizAttempt_earned_points := Some (snd ?p),
                        QuizAttempt_score := Some (percentage ?p)\<rparr>
             \<lparr>QuizAttempt_total_points := Some (fst ?p),
                        QuizAttempt_earned_points := Some (snd ?p),
                        QuizAttempt_score := Some (percentage ?p)\<rparr> =
           a\<lparr>QuizAttempt_total_points := Some (fst ?p),
                        QuizAttempt_earned_points := Some (snd ?p),
                        QuizAttempt_score := Some (percentage ?p)\<rparr>"
        by simp
      then have e: "a'\<lparr>QuizAttempt_total_points := Some (fst ?p),
                        QuizAttempt_earned_points := Some (snd ?p),
                        QuizAttempt_score := Some (percentage ?p)\<rparr> = a'"
        unfolding a' [symmetric] .
      show ?thesis unfolding c2 e ..
    qed
  qed
qed

lemma QuizAttempt_new_absent:
  "QuizAttempt_score (QuizAttempt_new now db u q) = None \<and>
   QuizAttempt_total_points (QuizAttempt_new now db u q) = None \<and>
   QuizAttempt_earned_points (QuizAttempt_new now db u q) = None"
  unfolding QuizAttempt_new_def by simp

lemma calculate_score_not_completed:
  "QuizAttempt_status a \<noteq> ''completed'' \<Longrightarrow> calculate_score py db a = Inr a"
  unfolding calculate_score_def by simp

text \<open>What a call stores on a completed attempt, in terms of the quiz's questions: the sums
  are taken over the questions the quiz has at the time of the call.\<close>

lemma calculate_score_stores:
  "calculate_score py db a =
     (if QuizAttempt_status a \<noteq> ''completed'' then Inr a
      else case get_answers_dict py a of
             Inl e \<Rightarrow> Inl e
           | Inr answers \<Rightarrow>
               (case QuizAttempt_quiz db a of
                  None \<Rightarrow> Inl AttributeError
                | Some quiz \<Rightarrow>
                    (let total = sum_list (map Question_points (Quiz_questions db quiz));
                         earned = sum_list (map Question_points
                           (filter (\<lambda>q. case answers (code_points (str_int (Question_id q))) of
                                            None \<Rightarrow> False
                                          | Some JNull \<Rightarrow> False
                                          | Some v \<Rightarrow> check_answer py q v)
                              (Quiz_questions db quiz)))
                     in Inr (a\<lparr>QuizAttempt_total_points := Some total,
                               QuizAttempt_earned_points := Some earned,
                               QuizAttempt_score :=
                                 Some (if 0 < total then of_int earned / of_int total * 100
                                       else 0)\<rparr>))))"
proof (cases "QuizAttempt_status a = ''completed''")
  case False
  then show ?thesis by (simp add: calculate_score_not_completed)
next
  case True
  show ?thesis
    unfolding calculate_score_completed [OF True]
    by (simp add: True calculate_score_loop_sums percentage_def Let_def
        split: sum.splits option.splits)
qed

text \<open>The values stored before the call play no part: the call overwrites them.\<close>

lemma calculate_score_overwrites:
  assumes c: "QuizAttempt_status a = ''completed''"
  shows "calculate_score py db
           (a\<lparr>QuizAttempt_total_points := x, QuizAttempt_earned_points := y,
              QuizAttempt_score := z\<rparr>) =
         calculate_score py db a"
proof -
  let ?a = "a\<lparr>QuizAttempt_total_points := x, QuizAttempt_earned_points := y,
              QuizAttempt_score := z\<rparr>"
  have c': "QuizAttempt_status ?a = ''completed''" using c by simp
  have g: "get_answers_dict py ?a = get_answers_dict py a"
    by (intro get_answers_dict_answers) simp
  have q: "QuizAttempt_quiz db ?a = QuizAttempt_quiz db a"
    by (simp add: QuizAttempt_quiz_def)
  show ?thesis
    unfolding calculate_score_completed [OF c] calculate_score_completed [OF c'] g q
    by (cases "get_answers_dict py a"; cases "QuizAttempt_quiz db a") simp_all
qed

text \<open>
  Claim C8, as the code has it. \<^verbatim>\<open>calculate_score\<close> changes nothing on an attempt whose
  status is not \<^verbatim>\<open>completed\<close>, so the score fields of such an attempt stay as they are, and
  a new attempt has them absent. On a completed attempt it reads the answers and the quiz;
  when both reads succeed it stores the total of the quiz's current questions, the points
  earned on them and the percentage, whatever was stored before: the stored values are
  overwritten, not kept. When the call returns, status, \<^verbatim>\<open>completed_at\<close> and the answers are
  unchanged, and a second call against the same database stores the same values again.
\<close>

theorem C8_calculate_score_recomputes:
  "calculate_score py db a =
     (if QuizAttempt_status a \<noteq> ''completed'' then Inr a
      else case get_answers_dict py a of
             Inl e \<Rightarrow> Inl e
           | Inr answers \<Rightarrow>
               (case QuizAttempt_quiz db a of
                  None \<Rightarrow> Inl AttributeError
                | Some quiz \<Rightarrow>
                    (let total = sum_list (map Question_points (Quiz_questions db quiz));
                         earned = sum_list (map Question_points
                           (filter (\<lambda>q. case answers (code_points (str_int (Question_id q))) of
                                            None \<Rightarrow> False
                                          | Some JNull \<Rightarrow> False
                                          | Some v \<Rightarrow> check_answer py q v)
                              (Quiz_questions db quiz)))
                     in Inr (a\<lparr>QuizAttempt_total_points := Some total,
                               QuizAttempt_earned_points := Some earned,
                               QuizAttempt_score :=
                                 Some (if 0 < total then of_int earned / of_int total * 100
                                       else 0)\<rparr>)))) \<and>
   (QuizAttempt_status a = ''completed'' \<longrightarrow>
      calculate_score py db
        (a\<lparr>QuizAttempt_total_points := x, QuizAttempt_earned_points := y,
           QuizAttempt_score := z\<rparr>) =
      calculate_score py db a) \<and>
   (QuizAttempt_status a \<noteq> ''completed'' \<longrightarrow> calculate_score py db a = Inr a) \<and>
   (calculate_score py db a = Inr a' \<longrightarrow>
      QuizAttempt_completed_at a' = QuizAttempt_completed_at a \<and>
      QuizAttempt_status a' = QuizAttempt_status a \<and>
      QuizAttempt_answers a' = QuizAttempt_answers a \<and>
      calculate_score py db a' = Inr a') \<and>
   QuizAttempt_score (QuizAttempt_new now db u q) = None \<and>
   QuizAttempt_total_points (QuizAttempt_new now db u q) = None \<and>
   QuizAttempt_earned_points (QuizAttempt_new now db u q) = None"
proof -
  have 2: "calculate_score py db a = Inr a' \<longrightarrow>
      QuizAttempt_completed_at a' = QuizAttempt_completed_at a \<and>
      QuizAttempt_status a' = QuizAttempt_status a \<and>
      QuizAttempt_answers a' = QuizAttempt_answers a \<and>
      calculate_score py db a' = Inr a'"
  proof
    assume r: "calculate_score py db a = Inr a'"
    from calculate_score_frame [OF r] calculate_score_idempotent [OF r]
    show "QuizAttempt_completed_at a' = QuizAttempt_completed_at a \<and>
      QuizAttempt_status a' = QuizAttempt_status a \<and>
      QuizAttempt_answers a' = QuizAttempt_answers a \<and>
      calculate_score py db a' = Inr a'"
      by blast
  qed
  show ?thesis
    by (intro conjI impI calculate_score_stores calculate_score_overwrites
        calculate_score_not_completed 2 [rule_format]
        QuizAttempt_new_absent [THEN conjunct1]
        QuizAttempt_new_absent [THEN conjunct2, THEN conjunct1]
        QuizAttempt_new_absent [THEN conjunct2, THEN conjunct2])
qed

text \<open>
  The second call is not a no-op on the stored fields: it recomputes. The attempt is scored
  when the quiz has its one-point question only (total 1); after the three-point question is
  added, scoring the same completed attempt again overwrites the stored total with 4.
\<close>

theorem C8_counterexample:
  "calculate_score ex_python (ex_db\<lparr>questions := [ex_question_one]\<rparr>) ex_attempt_blank =
     Inr (ex_attempt_blank\<lparr>QuizAttempt_total_points := Some 1,
            QuizAttempt_earned_points := Some 0, QuizAttempt_score := Some 0\<rparr>) \<and>
   calculate_score ex_python ex_db
     (ex_attempt_blank\<lparr>QuizAttempt_total_points := Some 1,
        QuizAttempt_earned_points := Some 0, QuizAttempt_score := Some 0\<rparr>) =
     Inr (ex_attempt_blank\<lparr>QuizAttempt_total_points := Some 4,
            QuizAttempt_earned_points := Some 0, QuizAttempt_score := Some 0\<rparr>)"
  by (simp add: calculate_score_def get_answers_dict_def QuizAttempt_quiz_def Quiz_questions_def
      ex_attempt_blank_def ex_db_def ex_quiz_def ex_question_one_def ex_question_three_def
      py_truediv_def)

text \<open>The sample attempt without answers: left alone while in progress; when completed,
  scored 4, 0 and 0 on the two-question quiz, also over the values 1, 0 and 0 stored
  before, with \<^verbatim>\<open>completed_at\<close> kept, and scored the same when scored again.\<close>

theorem C8_witness:
  "QuizAttempt_status (ex_attempt_blank\<lparr>QuizAttempt_status := ''in_progress''\<rparr>) \<noteq> ''completed'' \<and>
   calculate_score ex_python ex_db (ex_attempt_blank\<lparr>QuizAttempt_status := ''in_progress''\<rparr>) =
      Inr (ex_attempt_blank\<lparr>QuizAttempt_status := ''in_progress''\<rparr>) \<and>
   QuizAttempt_status ex_attempt_blank = ''completed'' \<and>
   calculate_score ex_python ex_db ex_attempt_blank =
      Inr (ex_attempt_blank\<lparr>QuizAttempt_total_points := Some 4,
             QuizAttempt_earned_points := Some 0, QuizAttempt_score := Some 0\<rparr>) \<and>
   calculate_score ex_python ex_db
      (ex_attempt_blank\<lparr>QuizAttempt_total_points := Some 1,
         QuizAttempt_earned_points := Some 0, QuizAttempt_score := Some 0\<rparr>) =
      Inr (ex_attempt_blank\<lparr>QuizAttempt_total_points := Some 4,
             QuizAttempt_earned_points := Some 0, QuizAttempt_score := Some 0\<rparr>) \<and>
   QuizAttempt_completed_at (ex_attempt_blank\<lparr>QuizAttempt_total_points := Some 4,
         QuizAttempt_earned_points := Some 0, QuizAttempt_score := Some 0\<rparr>) = Some 5 \<and>
   calculate_score ex_python ex_db
      (ex_attempt_blank\<lparr>QuizAttempt_total_points := Some 4,
         QuizAttempt_earned_points := Some 0, QuizAttempt_score := Some 0\<rparr>) =
      Inr (ex_attempt_blank\<lparr>QuizAttempt_total_points := Some 4,
             QuizAttempt_earned_points := Some 0, QuizAttempt_score := Some 0\<rparr>)"
proof -
  let ?b = "ex_attempt_blank\<lparr>QuizAttempt_status := ''in_progress''\<rparr>"
  let ?c = "ex_attempt_blank\<lparr>QuizAttempt_total_points := Some 4,
             QuizAttempt_earned_points := Some 0, QuizAttempt_score := Some 0\<rparr>"
  let ?o = "ex_attempt_blank\<lparr>QuizAttempt_total_points := Some 1,
             QuizAttempt_earned_points := Some 0, QuizAttempt_score := Some 0\<rparr>"
  note t = C8_calculate_score_recomputes [where py = ex_python and db = ex_db]
  have s: "QuizAttempt_status ?b \<noteq> ''completed''"
    by simp
  have k: "QuizAttempt_status ex_attempt_blank = ''completed''"
    by (simp add: ex_attempt_blank_def)
  have "calculate_score ex_python ex_db ex_attempt_blank =
      (if QuizAttempt_status ex_attempt_blank \<noteq> ''completed'' then Inr ex_attempt_blank
      else case get_answers_dict ex_python ex_attempt_blank of
             Inl e \<Rightarrow> Inl e
           | Inr answers \<Rightarrow>
               (case QuizAttempt_quiz ex_db ex_attempt_blank of
                  None \<Rightarrow> Inl AttributeError
                | Some quiz \<Rightarrow>
                    (let total = sum_list (map Question_points (Quiz_questions ex_db quiz));
                         earned = sum_list (map Question_points
                           (filter (\<lambda>q. case answers (code_points (str_int (Question_id q))) of
                                            None \<Rightarrow> False
                                          | Some JNull \<Rightarrow> False
                                          | Some v \<Rightarrow> check_answer ex_python q v)
                              (Quiz_questions ex_db quiz)))
                     in Inr (ex_attempt_blank\<lparr>QuizAttempt_total_points := Some total,
                               QuizAttempt_earned_points := Some earned,
                               QuizAttempt_score :=
                                 Some (if 0 < total then of_int earned / of_int total * 100
                                       else 0)\<rparr>))))"
    using t [where a = ex_attempt_blank] by (rule conjunct1)
  also have "\<dots> = Inr ?c"
    by (simp add: get_answers_dict_def QuizAttempt_quiz_def Quiz_questions_def
      ex_attempt_blank_def ex_db_def ex_quiz_def ex_question_one_def ex_question_three_def)
  finally have c: "calculate_score ex_python ex_db ex_attempt_blank = Inr ?c" .
  from t [where a = ?b] s
  have 1: "calculate_score ex_python ex_db ?b = Inr ?b"
    by blast
  from t [where a = ex_attempt_blank and x = "Some 1" and y = "Some 0" and z = "Some 0"] k
  have "calculate_score ex_python ex_db ?o = calculate_score ex_python ex_db ex_attempt_blank"
    by blast
  with c have o: "calculate_score ex_python ex_db ?o = Inr ?c" by simp
  from t [where a = ex_attempt_blank and a' = ?c] c
  have 2: "QuizAttempt_completed_at ?c = QuizAttempt_completed_at ex_attempt_blank \<and>
           calculate_score ex_python ex_db ?c = Inr ?c"
    by blast
  have e: "QuizAttempt_completed_at ex_attempt_blank = Some 5"
    by (simp add: ex_attempt_blank_def)
  show ?thesis using s k c o 1 2 e by simp
qed

subsection \<open>Starting an attempt\<close>

lemmas ex_defs = ex_db_def ex_quiz_def ex_course_def ex_enrollment_def ex_student_def
  ex_question_one_def ex_question_three_def

lemmas route_defs = take_quiz_def take_quiz_guard_def take_quiz_create_def take_quiz_render_def
  url_for_def main_endpoints_def
  QuizAttempt_new_def Quiz_is_ramdomized_def Quiz_course_def can_be_accessed_by_user_def
  is_teacher_def is_admin_def is_enrolled_by_user_def Course_enrollments_def
  can_user_attempt_def Quiz_attempts_def Quiz_questions_ordered_def Quiz_questions_def

lemma take_quiz_db:
  "snd (take_quiz sample now db current_user quiz_id) =
     (case take_quiz_guard db current_user quiz_id of
        Inl answer \<Rightarrow> db
      | Inr quiz \<Rightarrow>
          db\<lparr>quiz_attempts :=
               quiz_attempts db @ [QuizAttempt_new now db (User_id current_user) quiz_id]\<rparr>)"
  by (simp add: take_quiz_def take_quiz_create_def Let_def split: sum.splits)

lemma take_quiz_guard_Inr_iff:
  "(take_quiz_guard db current_user quiz_id = Inr quiz) =
     (find (\<lambda>q. Quiz_id q = quiz_id) (quizzes db) = Some quiz \<and>
      (\<exists>course. Quiz_course db quiz = Some course \<and>
                can_be_accessed_by_user db course current_user) \<and>
      can_user_attempt db quiz current_user)"
  by (auto simp: take_quiz_guard_def split: option.splits sum.splits)

text \<open>A request by a user who may not access the course ends in \<^verbatim>\<open>BuildError\<close>, raised by
  \<^verbatim>\<open>url_for\<close> in line 386, and leaves the database as it was.\<close>

lemma take_quiz_access_denied:
  assumes "find (\<lambda>q. Quiz_id q = quiz_id) (quizzes db) = Some quiz"
    and "Quiz_course db quiz = Some course"
    and "\<not> can_be_accessed_by_user db course current_user"
  shows "take_quiz sample now db current_user quiz_id = (Inl BuildError, db)"
  using assms by (simp add: take_quiz_def take_quiz_guard_def url_for_def main_endpoints_def)

text \<open>
  Claim C5, as the code has it. \<^verbatim>\<open>take_quiz\<close> adds an attempt row exactly when the quiz
  exists, the user may access the quiz's course and \<^verbatim>\<open>can_user_attempt\<close> holds; otherwise it
  leaves the database as it was. When it adds a row, the row is the new attempt of that user
  on that quiz and nothing else changes. The quiz's \<^verbatim>\<open>is_published\<close> flag is not among the
  conditions.
\<close>

theorem C5_take_quiz_creates_iff:
  "(quiz_attempts (snd (take_quiz sample now db current_user quiz_id)) \<noteq> quiz_attempts db) =
     (\<exists>quiz. find (\<lambda>q. Quiz_id q = quiz_id) (quizzes db) = Some quiz \<and>
        (\<exists>course. Quiz_course db quiz = Some course \<and>
                  can_be_accessed_by_user db course current_user) \<and>
        can_user_attempt db quiz current_user) \<and>
   (snd (take_quiz sample now db current_user quiz_id) = db \<or>
    snd (take_quiz sample now db current_user quiz_id) =
      db\<lparr>quiz_attempts :=
           quiz_attempts db @ [QuizAttempt_new now db (User_id current_user) quiz_id]\<rparr>)"
proof (cases "take_quiz_guard db current_user quiz_id")
  case (Inl answer)
  then have "\<nexists>quiz. take_quiz_guard db current_user quiz_id = Inr quiz" by simp
  then have "\<nexists>quiz. find (\<lambda>q. Quiz_id q = quiz_id) (quizzes db) = Some quiz \<and>
        (\<exists>course. Quiz_course db quiz = Some course \<and>
                  can_be_accessed_by_user db course current_user) \<and>
        can_user_attempt db quiz current_user"
    unfolding take_quiz_guard_Inr_iff .
  moreover have "snd (take_quiz sample now db current_user quiz_id) = db"
    using Inl by (simp add: take_quiz_db)
  ultimately show ?thesis by simp
next
  case (Inr quiz)
  then have "find (\<lambda>q. Quiz_id q = quiz_id) (quizzes db) = Some quiz \<and>
        (\<exists>course. Quiz_course db quiz = Some course \<and>
                  can_be_accessed_by_user db course current_user) \<and>
        can_user_attempt db quiz current_user"
    unfolding take_quiz_guard_Inr_iff .
  then have ex: "\<exists>quiz. find (\<lambda>q. Quiz_id q = quiz_id) (quizzes db) = Some quiz \<and>
        (\<exists>course. Quiz_course db quiz = Some course \<and>
                  can_be_accessed_by_user db course current_user) \<and>
        can_user_attempt db quiz current_user"
    by blast
  have d: "snd (take_quiz sample now db current_user quiz_id) =
      db\<lparr>quiz_attempts :=
           quiz_attempts db @ [QuizAttempt_new now db (User_id current_user) quiz_id]\<rparr>"
    using Inr by (simp add: take_quiz_db)
  have "quiz_attempts (snd (take_quiz sample now db current_user quiz_id)) \<noteq> quiz_attempts db"
    unfolding d by simp
  with ex d show ?thesis by simp
qed

text \<open>
  The route never reads the published flag: for the unpublished sample quiz, the enrolled
  student's request adds an attempt to the empty ledger.
\<close>

theorem C5_counterexample:
  "\<not> Quiz_is_published ex_quiz \<and>
   find (\<lambda>q. Quiz_id q = 1) (quizzes ex_db) = Some ex_quiz \<and>
   quiz_attempts ex_db = [] \<and>
   quiz_attempts (snd (take_quiz (\<lambda>qs. qs) 0 ex_db ex_student 1)) = [ex_attempt_new]"
  by (simp add: route_defs ex_defs ex_attempt_new_def Let_def)

subsection \<open>Question order\<close>

text \<open>
  Claim C3, as the code has it. At issue time \<^verbatim>\<open>take_quiz\<close> reads the quiz's questions sorted
  by \<^verbatim>\<open>order_index\<close>. No order is stored: the database after the call is the same whichever
  permutation the random generator would draw, so no permutation is associated with the
  attempt and none can be replayed when the attempt is read again.
\<close>

theorem C3_order_not_stored:
  "snd (take_quiz sample now db current_user quiz_id) =
     snd (take_quiz sample' now db current_user quiz_id) \<and>
   sorted (map Question_order_index (Quiz_questions_ordered db quiz)) \<and>
   mset (Quiz_questions_ordered db quiz) = mset (Quiz_questions db quiz)"
  by (simp add: take_quiz_db Quiz_questions_ordered_def)

text \<open>
  On the sample quiz, whose randomize flag is set and whose two questions have two distinct
  orders, a request that would draw the reversed order and one that would keep the sorted
  order leave the same database: the new attempt row, which has no column for an order. Both
  requests end at the read of \<^verbatim>\<open>quiz.is_ramdomized\<close> in line 404, after the commit, so no
  question list is presented either.
\<close>

theorem C3_counterexample:
  "rev (Quiz_questions_ordered ex_db ex_quiz) \<noteq> Quiz_questions_ordered ex_db ex_quiz \<and>
   take_quiz rev 0 ex_db ex_student 1 =
     (Inl AttributeError, ex_db\<lparr>quiz_attempts := [ex_attempt_new]\<rparr>) \<and>
   take_quiz (\<lambda>qs. qs) 0 ex_db ex_student 1 =
     (Inl AttributeError, ex_db\<lparr>quiz_attempts := [ex_attempt_new]\<rparr>)"
  by (simp add: route_defs ex_defs ex_attempt_new_def Let_def)

subsection \<open>The attempt limit\<close>

lemma take_quiz_quizzes:
  "quizzes (snd (take_quiz sample now db current_user quiz_id)) = quizzes db"
  by (simp add: take_quiz_db split: sum.splits)

lemma can_user_attempt_attempts_used:
  "can_user_attempt db quiz user =
     (int (attempts_used db (User_id user) (Quiz_id quiz)) < Quiz_max_attemtps quiz)"
proof -
  have "filter (\<lambda>a. QuizAttempt_user_id a = User_id user) (Quiz_attempts db quiz) =
        filter (\<lambda>a. QuizAttempt_user_id a = User_id user \<and> QuizAttempt_quiz_id a = Quiz_id quiz)
          (quiz_attempts db)"
    by (simp add: Quiz_attempts_def conj_commute)
  then show ?thesis
    by (simp add: can_user_attempt_def attempts_used_def Let_def)
qed

lemma find_Quiz_id:
  "find (\<lambda>q. Quiz_id q = quiz_id) qs = Some quiz \<Longrightarrow> Quiz_id quiz = quiz_id"
  by (induction qs) (auto split: if_splits)

lemma attempts_used_take_quiz:
  "attempts_used (snd (take_quiz sample now db current_user quiz_id')) user_id quiz_id =
     (case take_quiz_guard db current_user quiz_id' of
        Inl answer \<Rightarrow> attempts_used db user_id quiz_id
      | Inr quiz \<Rightarrow>
          attempts_used db user_id quiz_id +
          (if User_id current_user = user_id \<and> quiz_id' = quiz_id then 1 else 0))"
  by (simp add: take_quiz_db attempts_used_def QuizAttempt_new_def split: sum.splits)

lemma take_quiz_keeps_limit:
  assumes q: "find (\<lambda>q. Quiz_id q = quiz_id) (quizzes db) = Some quiz"
    and le: "int (attempts_used db user_id quiz_id) \<le> Quiz_max_attemtps quiz"
  shows "int (attempts_used (snd (take_quiz sample now db current_user quiz_id')) user_id quiz_id)
           \<le> Quiz_max_attemtps quiz"
proof (cases "take_quiz_guard db current_user quiz_id'")
  case (Inl answer)
  then show ?thesis using le by (simp add: attempts_used_take_quiz)
next
  case (Inr quiz')
  show ?thesis
  proof (cases "User_id current_user = user_id \<and> quiz_id' = quiz_id")
    case False
    then show ?thesis using le Inr by (auto simp: attempts_used_take_quiz)
  next
    case True
    from Inr have f: "find (\<lambda>q. Quiz_id q = quiz_id') (quizzes db) = Some quiz'"
      and c: "can_user_attempt db quiz' current_user"
      unfolding take_quiz_guard_Inr_iff by blast+
    from f q True have "quiz' = quiz" by simp
    with c True find_Quiz_id [OF q]
    have "int (attempts_used db user_id quiz_id) < Quiz_max_attemtps quiz"
      by (simp add: can_user_attempt_attempts_used)
    then show ?thesis using Inr True by (simp add: attempts_used_take_quiz)
  qed
qed

lemma take_quiz_calls_keep_limit:
  "find (\<lambda>q. Quiz_id q = quiz_id) (quizzes db) = Some quiz \<Longrightarrow>
   int (attempts_used db user_id quiz_id) \<le> Quiz_max_attemtps quiz \<Longrightarrow>
   int (attempts_used (take_quiz_calls sample rs db) user_id quiz_id) \<le> Quiz_max_attemtps quiz"
proof (induction rs arbitrary: db)
  case Nil
  then show ?case by simp
next
  case (Cons r rs)
  let ?db = "snd (take_quiz sample (request_now r) db (request_user r) (request_quiz_id r))"
  have "find (\<lambda>q. Quiz_id q = quiz_id) (quizzes ?db) = Some quiz"
    using Cons.prems(1) by (simp add: take_quiz_quizzes)
  moreover have "int (attempts_used ?db user_id quiz_id) \<le> Quiz_max_attemtps quiz"
    using Cons.prems by (rule take_quiz_keeps_limit)
  ultimately have "int (attempts_used (take_quiz_calls sample rs ?db) user_id quiz_id)
      \<le> Quiz_max_attemtps quiz"
    by (rule Cons.IH)
  then show ?case by simp
qed

lemma take_quiz_at_limit:
  assumes q: "find (\<lambda>q. Quiz_id q = quiz_id) (quizzes db) = Some quiz"
    and full: "Quiz_max_attemtps quiz \<le> int (attempts_used db (User_id current_user) quiz_id)"
  shows "snd (take_quiz sample now db current_user quiz_id) = db"
    and "Quiz_course db quiz = Some course \<Longrightarrow>
         can_be_accessed_by_user db course current_user \<Longrightarrow>
         fst (take_quiz sample now db current_user quiz_id) =
           Inr (Redirect ''main.quiz_detail'' quiz_id
                  ''You have reached the maximum number of attempts for this quiz.'')"
proof -
  have n: "\<not> can_user_attempt db quiz current_user"
    using full find_Quiz_id [OF q] by (simp add: can_user_attempt_attempts_used)
  have g: "\<And>quiz'. take_quiz_guard db current_user quiz_id \<noteq> Inr quiz'"
    using n q unfolding take_quiz_guard_Inr_iff by auto
  then show "snd (take_quiz sample now db current_user quiz_id) = db"
    by (cases "take_quiz_guard db current_user quiz_id") (auto simp: take_quiz_db)
  show "Quiz_course db quiz = Some course \<Longrightarrow>
         can_be_accessed_by_user db course current_user \<Longrightarrow>
         fst (take_quiz sample now db current_user quiz_id) =
           Inr (Redirect ''main.quiz_detail'' quiz_id
                  ''You have reached the maximum number of attempts for this quiz.'')"
    using n q by (simp add: take_quiz_def take_quiz_guard_def url_for_def main_endpoints_def)
qed

text \<open>A request that runs alone, both steps in a row, is a call of \<^verbatim>\<open>take_quiz\<close>.\<close>

lemma run_schedule_alone:
  "run_schedule sample [r] [0, 0] ([Pending], db) =
     ([Finished (fst (take_quiz sample (request_now r) db (request_user r) (request_quiz_id r)))],
      snd (take_quiz sample (request_now r) db (request_user r) (request_quiz_id r)))"
  by (simp add: take_quiz_def split: sum.splits prod.splits)

text \<open>
  Claim C2, as the code has it. For requests served one after another: if a user has at most
  \<^verbatim>\<open>max_attemtps\<close> attempt rows on a quiz, then after any sequence of \<^verbatim>\<open>take_quiz\<close> calls, by
  any users on any quizzes, that user still has at most \<^verbatim>\<open>max_attemtps\<close> rows on it. A call
  by a user who already has \<^verbatim>\<open>max_attemtps\<close> rows or more leaves the database unchanged,
  and when the user may access the course it is answered with the redirect to the quiz page
  and the message that the maximum number of attempts is reached.
\<close>

theorem C2_attempt_limit_sequential:
  assumes "find (\<lambda>q. Quiz_id q = quiz_id) (quizzes db) = Some quiz"
  shows "(int (attempts_used db user_id quiz_id) \<le> Quiz_max_attemtps quiz \<longrightarrow>
            int (attempts_used (take_quiz_calls sample rs db) user_id quiz_id)
              \<le> Quiz_max_attemtps quiz) \<and>
         (Quiz_max_attemtps quiz \<le> int (attempts_used db (User_id current_user) quiz_id) \<longrightarrow>
            snd (take_quiz sample now db current_user quiz_id) = db \<and>
            (Quiz_course db quiz = Some course \<and>
             can_be_accessed_by_user db course current_user \<longrightarrow>
               fst (take_quiz sample now db current_user quiz_id) =
                 Inr (Redirect ''main.quiz_detail'' quiz_id
                        ''You have reached the maximum number of attempts for this quiz.'')))"
proof (intro conjI impI)
  assume "int (attempts_used db user_id quiz_id) \<le> Quiz_max_attemtps quiz"
  with assms show "int (attempts_used (take_quiz_calls sample rs db) user_id quiz_id)
      \<le> Quiz_max_attemtps quiz"
    by (rule take_quiz_calls_keep_limit)
next
  assume full: "Quiz_max_attemtps quiz \<le> int (attempts_used db (User_id current_user) quiz_id)"
  from assms full show "snd (take_quiz sample now db current_user quiz_id) = db"
    by (rule take_quiz_at_limit(1))
  assume "Quiz_course db quiz = Some course \<and> can_be_accessed_by_user db course current_user"
  then have c: "Quiz_course db quiz = Some course"
    and a: "can_be_accessed_by_user db course current_user"
    by simp_all
  from assms full c a
  show "fst (take_quiz sample now db current_user quiz_id) =
      Inr (Redirect ''main.quiz_detail'' quiz_id
             ''You have reached the maximum number of attempts for this quiz.'')"
    by (rule take_quiz_at_limit(2))
qed

text \<open>
  Under concurrent requests the bound fails. The quiz allows one attempt and the student has
  none. Two requests of the student both pass the check of line 389 before either commits;
  then both commit, and the student has two rows.
\<close>

theorem C2_counterexample:
  "Quiz_max_attemtps ex_quiz = 1 \<and>
   attempts_used ex_db 7 1 = 0 \<and>
   attempts_used
     (snd (run_schedule (\<lambda>qs. qs) [ex_request, ex_request] [0, Suc 0, 0, Suc 0]
        ([Pending, Pending], ex_db))) 7 1 = 2"
  by (simp add: route_defs ex_defs ex_request_def attempts_used_def Let_def)

theorem C2_witness:
  "snd (take_quiz (\<lambda>qs. qs) 0 ex_db ex_student 1) = ex_db_used \<and>
   find (\<lambda>q. Quiz_id q = 1) (quizzes ex_db_used) = Some ex_quiz \<and>
   int (attempts_used ex_db_used 7 1) \<le> Quiz_max_attemtps ex_quiz \<and>
   Quiz_max_attemtps ex_quiz \<le> int (attempts_used ex_db_used (User_id ex_student) 1) \<and>
   Quiz_course ex_db_used ex_quiz = Some ex_course \<and>
   can_be_accessed_by_user ex_db_used ex_course ex_student \<and>
   int (attempts_used (take_quiz_calls (\<lambda>qs. qs) [ex_request, ex_request] ex_db_used) 7 1)
     \<le> Quiz_max_attemtps ex_quiz \<and>
   snd (take_quiz (\<lambda>qs. qs) 0 ex_db_used ex_student 1) = ex_db_used \<and>
   fst (take_quiz (\<lambda>qs. qs) 0 ex_db_used ex_student 1) =
     Inr (Redirect ''main.quiz_detail'' 1
            ''You have reached the maximum number of attempts for this quiz.'')"
proof -
  have 0: "snd (take_quiz (\<lambda>qs. qs) 0 ex_db ex_student 1) = ex_db_used"
    by (simp add: route_defs ex_defs ex_db_used_def ex_attempt_new_def Let_def)
  have 1: "find (\<lambda>q. Quiz_id q = 1) (quizzes ex_db_used) = Some ex_quiz"
    by (simp add: ex_db_used_def ex_defs)
  have 2: "int (attempts_used ex_db_used 7 1) \<le> Quiz_max_attemtps ex_quiz"
    by (simp add: ex_db_used_def ex_defs ex_attempt_new_def attempts_used_def)
  have 3: "Quiz_max_attemtps ex_quiz \<le> int (attempts_used ex_db_used (User_id ex_student) 1)"
    by (simp add: ex_db_used_def ex_defs ex_attempt_new_def attempts_used_def)
  have 4: "Quiz_course ex_db_used ex_quiz = Some ex_course"
    by (simp add: ex_db_used_def ex_defs Quiz_course_def)
  have 5: "can_be_accessed_by_user ex_db_used ex_course ex_student"
    by (simp add: ex_db_used_def ex_defs can_be_accessed_by_user_def is_enrolled_by_user_def
        Course_enrollments_def)
  note t = C2_attempt_limit_sequential [OF 1, of 7 "\<lambda>qs. qs" "[ex_request, ex_request]"
      ex_student 0 ex_course]
  from t 2 have 6: "int (attempts_used
      (take_quiz_calls (\<lambda>qs. qs) [ex_request, ex_request] ex_db_used) 7 1)
     \<le> Quiz_max_attemtps ex_quiz"
    by blast
  from t 3 4 5 have 7: "snd (take_quiz (\<lambda>qs. qs) 0 ex_db_used ex_student 1) = ex_db_used \<and>
    fst (take_quiz (\<lambda>qs. qs) 0 ex_db_used ex_student 1) =
     Inr (Redirect ''main.quiz_detail'' 1
            ''You have reached the maximum number of attempts for this quiz.'')"
    by blast
  from 0 1 2 3 4 5 6 7 show ?thesis by blast
qed

end
